theory Spec2Isabelle
  imports
    Complex_Main
    "HOL-Library.Word"
    "HOL-Library.Multiset"
    "HOL-Library.Char_ord"
    "HOL-Library.List_Lexorder"
    "HOL-Library.Product_Lexorder"
begin

section \<open>cronch: Sentinel-2 band groups binned into H3 hexagons (h3ingest.py)\<close>

text \<open>
  The script \<^verbatim>\<open>h3ingest.py\<close> has two functions, \<^verbatim>\<open>process_one_item\<close> and \<^verbatim>\<open>main\<close>,
  and one module constant, \<^verbatim>\<open>BAND_GROUPS\<close>. Everything else is a call into a library
  (pystac, odc.stac, geopandas, h3, pandas). The embedding below keeps the control flow,
  the arithmetic and the effects of the two functions as they are written and takes the
  library calls whose result depends on the outside world as fields of an environment
  record.

  Conventions of the model:
  \<^item> Python floats are idealised as \<open>real\<close>: rounding, infinities and NaN are not modelled.
  \<^item> A raised exception is a value of \<open>py_error\<close>; a function that can raise returns
    \<open>py_error + 'a\<close> with \<open>Inl\<close> for the exception.
  \<^item> \<^verbatim>\<open>print\<close> and \<^verbatim>\<open>to_parquet\<close> are the only effects; they act on an explicit \<open>world\<close>.
    A function with effects returns the exception it raised, if any, together with the
    world it left: what was printed or written before the exception stays.
  \<^item> A library call that can raise has a result of type \<open>py_error + 'a\<close>, or a field of the
    environment names the exception it raises.
  \<^item> The interactive \<^verbatim>\<open>breakpoint()\<close> that ends \<^verbatim>\<open>process_one_item\<close> is read as a
    no-op (the debugger is left with \<^verbatim>\<open>continue\<close>).
  \<^item> Column labels of the data frame (\<^verbatim>\<open>'hex' + str(hex_level)\<close>) are not modelled; a
    data frame is the list of its rows.
\<close>

subsection \<open>Data\<close>

datatype py_error =
    AssertionError string
  | IndexError
  | ValueError
  | ZeroDivisionError
  | AttributeError
  | LoadError string
  | LibraryError string
  | OSError string
  | ResolutionMismatchError real real

text \<open>\<open>LoadError\<close>, \<open>LibraryError\<close> and \<open>OSError\<close> stand for what \<^verbatim>\<open>odc.stac.load\<close>, the
  geometry and h3 calls, and \<^verbatim>\<open>to_parquet\<close> raise; the environment chooses them.
  \<open>ResolutionMismatchError declared measured\<close> is the error kind of the written
  specification. No statement of the script raises it; it is here so that the outcome of
  the assertion can be compared with it.\<close>

text \<open>A Python number that is either an \<^verbatim>\<open>int\<close> or a \<^verbatim>\<open>float\<close>: the two zoom levels
  of \<^verbatim>\<open>BAND_GROUPS\<close> are \<^verbatim>\<open>12\<close> and \<^verbatim>\<open>11.0\<close>.\<close>

datatype pynum = PyInt int | PyFloat real

record band_info =
  resolution :: real
  zoom :: pynum
  bands :: "string list"

definition BAND_GROUPS :: "(string \<times> band_info) list" where
  "BAND_GROUPS =
     [(''vis_nir'',
        \<lparr>resolution = 10, zoom = PyInt 12,
         bands = [''B02'', ''B03'', ''B04'', ''B08'']\<rparr>),
      (''swir_rededge'',
        \<lparr>resolution = 20, zoom = PyFloat 11,
         bands = [''B05'', ''B06'', ''B07'', ''B11'', ''B12'']\<rparr>)]"

type_synonym geometry = "(real \<times> real) list"

text \<open>The shape that \<^verbatim>\<open>h3.geo_to_h3shape\<close> makes of a geometry is a polygon again.\<close>

type_synonym h3shape = "(real \<times> real) list"

text \<open>A STAC item: \<open>datetime\<close> is what \<^verbatim>\<open>get_datetime()\<close> returns, a pair of a date and
  a time of day, or \<open>None\<close>.\<close>

record item =
  item_id :: string
  bbox :: "real list"
  datetime :: "(string \<times> string) option"
  geometry :: geometry

text \<open>What \<^verbatim>\<open>odc.stac.load\<close> returns, reduced to what the script reads from it: the
  \<^verbatim>\<open>GeoTransform\<close> and \<^verbatim>\<open>crs_wkt\<close> attributes of \<^verbatim>\<open>spatial_ref\<close>, the two sizes, and
  the long table that the \<^verbatim>\<open>to_dataframe ... stack ... reset_index ... rename\<close> chain
  makes of the data variables: one row \<open>(x, y, band, value)\<close> per pixel and band.\<close>

record cube =
  GeoTransform :: string
  crs_wkt :: string
  size_x :: nat
  size_y :: nat
  long_table :: "(real \<times> real \<times> string \<times> int) list"

record pixel_sample =
  lon :: real
  lat :: real
  band :: string
  val :: int

type_synonym hex_row = "string \<times> string \<times> 16 word"

record log_line =
  line_item :: string
  line_group :: string
  line_llcorner :: "real list"
  line_date :: string
  line_res :: real
  line_ratio :: real
  line_valid_frac :: real

record world =
  stdout :: "log_line list"
  files :: "string \<rightharpoonup> hex_row list"

text \<open>The library calls whose results come from outside the script.
  \<^item> \<open>odc_stac_load\<close> is line 85, \<open>area_epsg5070\<close> lines 72--74, \<open>geo_to_h3shape\<close> line 76
    and \<open>h3shape_to_cells\<close> line 94; each returns a value or raises.
  \<^item> \<open>to_crs_4326\<close> and \<open>latlng_to_cell\<close> are what lines 108 and 112 compute for one
    point. \<open>binning_raises\<close> is the exception, if any, that the library calls of lines
    98--119 raise on a cube at a level (a coordinate system that cannot be read, a level
    that h3 refuses); when it is \<open>None\<close> they all return.
  \<^item> \<open>to_parquet_raises path rows old\<close> is \<open>None\<close> when writing \<open>rows\<close> to \<open>path\<close> succeeds
    (\<open>old\<close> is what the path held before), and \<open>Some (err, left)\<close> when the write raises
    \<open>err\<close> and leaves \<open>left\<close> at the path.
  \<^item> \<open>py_float\<close> is the builtin \<^verbatim>\<open>float\<close> on a string; \<open>None\<close> stands for \<^verbatim>\<open>ValueError\<close>.\<close>

record env =
  odc_stac_load :: "item \<Rightarrow> string list \<Rightarrow> py_error + cube"
  area_epsg5070 :: "geometry \<Rightarrow> py_error + real"
  geo_to_h3shape :: "geometry \<Rightarrow> py_error + h3shape"
  h3shape_to_cells :: "h3shape \<Rightarrow> pynum \<Rightarrow> py_error + string list"
  to_crs_4326 :: "string \<Rightarrow> real \<times> real \<Rightarrow> real \<times> real"
  latlng_to_cell :: "real \<Rightarrow> real \<Rightarrow> pynum \<Rightarrow> string"
  binning_raises :: "cube \<Rightarrow> pynum \<Rightarrow> py_error option"
  to_parquet_raises ::
    "string \<Rightarrow> hex_row list \<Rightarrow> hex_row list option \<Rightarrow> (py_error \<times> hex_row list option) option"
  py_float :: "string \<Rightarrow> real option"

subsection \<open>Strings: \<^verbatim>\<open>str.split()\<close> and indexing\<close>

definition isspace :: "char \<Rightarrow> bool" where
  "isspace c \<longleftrightarrow> c \<in> set [CHR '' '', CHR 0x09, CHR 0x0A, CHR 0x0B, CHR 0x0C, CHR 0x0D,
                              CHR 0x1C, CHR 0x1D, CHR 0x1E, CHR 0x1F]"

fun split_from :: "string \<Rightarrow> string \<Rightarrow> string list" where
  "split_from cur [] = (if cur = [] then [] else [cur])"
| "split_from cur (c # cs) =
     (if isspace c then (if cur = [] then split_from [] cs else cur # split_from [] cs)
      else split_from (cur @ [c]) cs)"

definition str_split :: "string \<Rightarrow> string list" where
  "str_split s = split_from [] s"

definition getitem :: "'a list \<Rightarrow> nat \<Rightarrow> py_error + 'a" where
  "getitem xs i = (if i < length xs then Inr (xs ! i) else Inl IndexError)"

subsection \<open>Lines 85--86: the resolution assertion\<close>

definition measured_resolution :: "env \<Rightarrow> cube \<Rightarrow> py_error + real" where
  "measured_resolution e data =
     (case getitem (str_split (GeoTransform data)) 1 of
        Inl err \<Rightarrow> Inl err
      | Inr tok \<Rightarrow> (case py_float e tok of None \<Rightarrow> Inl ValueError | Some r \<Rightarrow> Inr r))"

definition assert_resolution :: "env \<Rightarrow> real \<Rightarrow> cube \<Rightarrow> py_error + unit" where
  "assert_resolution e res data =
     (case measured_resolution e data of
        Inl err \<Rightarrow> Inl err
      | Inr r \<Rightarrow> if res = r then Inr () else Inl (AssertionError ''Resolution is donked up''))"

subsection \<open>Lines 89--95: pixel counts and coverage numbers\<close>

definition truediv :: "real \<Rightarrow> real \<Rightarrow> py_error + real" where
  "truediv a b = (if b = 0 then Inl ZeroDivisionError else Inr (a / b))"

definition diagnostics :: "real \<Rightarrow> real \<Rightarrow> nat \<Rightarrow> nat \<Rightarrow> py_error + real \<times> real" where
  "diagnostics area res num_cells num_tile_pixels =
     (case truediv area (res ^ 2) of
        Inl err \<Rightarrow> Inl err
      | Inr num_pixels \<Rightarrow>
          (case truediv num_pixels (real num_tile_pixels) of
             Inl err \<Rightarrow> Inl err
           | Inr valid_frac \<Rightarrow>
               (case truediv num_pixels (real num_cells) of
                  Inl err \<Rightarrow> Inl err
                | Inr ratio \<Rightarrow> Inr (ratio, valid_frac))))"

text \<open>Lines 89--91 on their own: \<^verbatim>\<open>num_pixels\<close> and \<^verbatim>\<open>valid_frac\<close>, which the script
  computes before it asks h3 for the cells.\<close>

definition pixel_counts :: "real \<Rightarrow> real \<Rightarrow> nat \<Rightarrow> py_error + real \<times> real" where
  "pixel_counts area res num_tile_pixels =
     (case truediv area (res ^ 2) of
        Inl err \<Rightarrow> Inl err
      | Inr num_pixels \<Rightarrow>
          (case truediv num_pixels (real num_tile_pixels) of
             Inl err \<Rightarrow> Inl err
           | Inr valid_frac \<Rightarrow> Inr (num_pixels, valid_frac)))"

subsection \<open>Lines 98--119: long table, reprojection, hexagon column, group-by mean, cast\<close>

definition to_samples :: "env \<Rightarrow> cube \<Rightarrow> pixel_sample list" where
  "to_samples e data =
     map (\<lambda>(x, y, b, v).
            let p = to_crs_4326 e (crs_wkt data) (x, y)
            in \<lparr>lon = fst p, lat = snd p, band = b, val = v\<rparr>)
         (long_table data)"

definition hex_key :: "env \<Rightarrow> pynum \<Rightarrow> pixel_sample \<Rightarrow> string \<times> string" where
  "hex_key e hex_level s = (latlng_to_cell e (lat s) (lon s) hex_level, band s)"

definition mean :: "int list \<Rightarrow> real" where
  "mean vs = real_of_int (sum_list vs) / real (length vs)"

text \<open>\<^verbatim>\<open>groupby(keys)["value"].mean()\<close>: one row per key that occurs, the keys in
  ascending order (pandas sorts group keys by default), each with the mean of the values
  of the rows that carry exactly that key.\<close>

definition groupby_mean :: "('k::linorder \<times> int) list \<Rightarrow> ('k \<times> real) list" where
  "groupby_mean rows =
     map (\<lambda>k. (k, mean (map snd (filter (\<lambda>r. fst r = k) rows))))
         (sort (remdups (map fst rows)))"

text \<open>\<^verbatim>\<open>astype("int16")\<close> on a float column: numpy's unchecked conversion. The fraction
  is dropped towards zero and the integer is narrowed to 16 bits by keeping its low bits.
  (This is what the conversion does for truncated values inside the 32-bit range; beyond
  it the result depends on the platform, and the theorems below stay inside it.)\<close>

definition trunc :: "real \<Rightarrow> int" where
  "trunc x = (if 0 \<le> x then \<lfloor>x\<rfloor> else - \<lfloor>- x\<rfloor>)"

definition astype_int16 :: "real \<Rightarrow> 16 word" where
  "astype_int16 x = word_of_int (trunc x)"

definition aggregate :: "env \<Rightarrow> pynum \<Rightarrow> pixel_sample list \<Rightarrow> hex_row list" where
  "aggregate e hex_level samples =
     map (\<lambda>((h, b), m). (h, b, astype_int16 m))
         (groupby_mean (map (\<lambda>s. (hex_key e hex_level s, val s)) samples))"

subsection \<open>Lines 79--133: the loop body, one band group of one item\<close>

text \<open>Lines 89--133, what follows the assertion: the pixel counts, the cells and their
  ratio, the aggregation, the printed line and the written file, in the order of the
  script. An exception before line 129 leaves the world as it was; an exception of
  \<^verbatim>\<open>to_parquet\<close> comes after the line is printed.\<close>

definition finish_band_group ::
    "env \<Rightarrow> item \<Rightarrow> string \<Rightarrow> real list \<Rightarrow> real \<Rightarrow> h3shape \<Rightarrow> string \<times> band_info \<Rightarrow> cube
      \<Rightarrow> world \<Rightarrow> py_error option \<times> world" where
  "finish_band_group e it date llcorner area poly g data w =
     (let band_group = fst g; res = resolution (snd g); hex_level = zoom (snd g)
      in case pixel_counts area res (size_x data * size_y data) of
           Inl err \<Rightarrow> (Some err, w)
         | Inr (num_pixels, valid_frac) \<Rightarrow>
             (case h3shape_to_cells e poly hex_level of
                Inl err \<Rightarrow> (Some err, w)
              | Inr cells \<Rightarrow>
                  (case truediv num_pixels (real (length cells)) of
                     Inl err \<Rightarrow> (Some err, w)
                   | Inr ratio \<Rightarrow>
                       (case binning_raises e data hex_level of
                          Some err \<Rightarrow> (Some err, w)
                        | None \<Rightarrow>
                            (let df = aggregate e hex_level (to_samples e data);
                                 w1 = w\<lparr>stdout := stdout w @
                                        [\<lparr>line_item = item_id it, line_group = band_group,
                                          line_llcorner = llcorner, line_date = date,
                                          line_res = res, line_ratio = ratio,
                                          line_valid_frac = valid_frac\<rparr>]\<rparr>;
                                 path = item_id it @ ''.parquet''
                             in case to_parquet_raises e path df (files w1 path) of
                                  None \<Rightarrow> (None, w1\<lparr>files := (files w1)(path \<mapsto> df)\<rparr>)
                                | Some (err, left) \<Rightarrow>
                                    (Some err, w1\<lparr>files := (files w1)(path := left)\<rparr>))))))"

text \<open>Lines 81--133: load the cube, assert its resolution, then the rest.\<close>

definition process_band_group ::
    "env \<Rightarrow> item \<Rightarrow> string \<Rightarrow> real list \<Rightarrow> real \<Rightarrow> h3shape \<Rightarrow> string \<times> band_info \<Rightarrow> world
      \<Rightarrow> py_error option \<times> world" where
  "process_band_group e it date llcorner area poly g w =
     (case odc_stac_load e it (bands (snd g)) of
        Inl err \<Rightarrow> (Some err, w)
      | Inr data \<Rightarrow>
          (case assert_resolution e (resolution (snd g)) data of
             Inl err \<Rightarrow> (Some err, w)
           | Inr _ \<Rightarrow> finish_band_group e it date llcorner area poly g data w))"

text \<open>The \<^verbatim>\<open>for\<close> loop: an exception leaves the loop and the function with the world as
  the failing iteration left it; what earlier iterations printed and wrote stays.\<close>

fun for_band_groups ::
    "env \<Rightarrow> item \<Rightarrow> string \<Rightarrow> real list \<Rightarrow> real \<Rightarrow> h3shape \<Rightarrow> (string \<times> band_info) list
      \<Rightarrow> world \<Rightarrow> py_error option \<times> world" where
  "for_band_groups e it date llcorner area poly [] w = (None, w)"
| "for_band_groups e it date llcorner area poly (g # gs) w =
     (case process_band_group e it date llcorner area poly g w of
        (Some err, w') \<Rightarrow> (Some err, w')
      | (None, w') \<Rightarrow> for_band_groups e it date llcorner area poly gs w')"

text \<open>Lines 68--76, before the loop: the date, the lower left corner, the area and the h3
  shape of the item.\<close>

definition item_setup :: "env \<Rightarrow> item \<Rightarrow> py_error + string \<times> real list \<times> real \<times> h3shape" where
  "item_setup e it =
     (case datetime it of
        None \<Rightarrow> Inl AttributeError
      | Some dt \<Rightarrow>
          (case area_epsg5070 e (geometry it) of
             Inl err \<Rightarrow> Inl err
           | Inr area \<Rightarrow>
               (case geo_to_h3shape e (geometry it) of
                  Inl err \<Rightarrow> Inl err
                | Inr poly \<Rightarrow> Inr (fst dt, take 2 (bbox it), area, poly))))"

definition process_item_groups ::
    "env \<Rightarrow> (string \<times> band_info) list \<Rightarrow> item \<Rightarrow> world \<Rightarrow> py_error option \<times> world" where
  "process_item_groups e groups it w =
     (case item_setup e it of
        Inl err \<Rightarrow> (Some err, w)
      | Inr (date, llcorner, area, poly) \<Rightarrow>
          for_band_groups e it date llcorner area poly groups w)"

definition process_one_item :: "env \<Rightarrow> item \<Rightarrow> world \<Rightarrow> py_error option \<times> world" where
  "process_one_item e it w = process_item_groups e BAND_GROUPS it w"

subsection \<open>Lines 139--156: main\<close>

text \<open>\<open>items\<close> is the item collection that the catalog search returns.\<close>

definition main :: "env \<Rightarrow> item list \<Rightarrow> world \<Rightarrow> py_error option \<times> world" where
  "main e items w =
     (case getitem items 0 of
        Inl err \<Rightarrow> (Some err, w)
      | Inr it \<Rightarrow> process_one_item e it w)"

subsection \<open>Concrete inputs for the examples\<close>

text \<open>\<^verbatim>\<open>float()\<close> on the plain decimal literals that a \<^verbatim>\<open>GeoTransform\<close> string holds: an
  optional sign, digits, an optional point and more digits. It stands for \<open>py_float\<close> in
  the examples only; the theorems hold for every \<open>py_float\<close>.\<close>

definition digit :: "char \<Rightarrow> nat option" where
  "digit c = (let n = of_char c :: nat in if 48 \<le> n \<and> n \<le> 57 then Some (n - 48) else None)"

fun digits :: "nat \<Rightarrow> string \<Rightarrow> nat option" where
  "digits acc [] = Some acc"
| "digits acc (c # cs) = (case digit c of None \<Rightarrow> None | Some d \<Rightarrow> digits (10 * acc + d) cs)"

definition unsigned_decimal :: "string \<Rightarrow> real option" where
  "unsigned_decimal s =
     (let ip = takeWhile (\<lambda>c. c \<noteq> CHR ''.'') s;
          fp = drop 1 (dropWhile (\<lambda>c. c \<noteq> CHR ''.'') s)
      in if ip = [] \<and> fp = [] then None
         else (case (digits 0 ip, digits 0 fp) of
                 (Some i, Some f) \<Rightarrow> Some (real i + real f / 10 ^ length fp)
               | _ \<Rightarrow> None))"

definition float_decimal :: "string \<Rightarrow> real option" where
  "float_decimal s =
     (case s of
        [] \<Rightarrow> None
      | c # t \<Rightarrow> if c = CHR ''-'' then map_option uminus (unsigned_decimal t)
                 else if c = CHR ''+'' then unsigned_decimal t
                 else unsigned_decimal s)"

text \<open>Two small cubes, a two-pixel one for the 10 m bands whose \<^verbatim>\<open>GeoTransform\<close> is a
  parameter, and a one-pixel one for the 20 m bands; an environment that serves them; a
  tile; and the empty world.\<close>

definition vis_cube :: "string \<Rightarrow> cube" where
  "vis_cube gt =
     \<lparr>GeoTransform = gt, crs_wkt = ''EPSG:32757'', size_x = 2, size_y = 1,
      long_table =
        [(156900, -21700, ''B02'', 2469), (156900, -21700, ''B03'', 2321),
         (156900, -21700, ''B04'', 2385), (156900, -21700, ''B08'', 2358),
         (156910, -21700, ''B02'', 2472), (156910, -21700, ''B03'', 2322),
         (156910, -21700, ''B04'', 40000), (156910, -21700, ''B08'', 2358)]\<rparr>"

definition swir_cube :: cube where
  "swir_cube =
     \<lparr>GeoTransform = ''600000.0 20.0 0.0 7600000.0 0.0 -20.0'', crs_wkt = ''EPSG:32757'',
      size_x = 1, size_y = 1,
      long_table =
        [(156910, -21710, ''B05'', 2510), (156910, -21710, ''B06'', 2359),
         (156910, -21710, ''B07'', 2346), (156910, -21710, ''B11'', 2342),
         (156910, -21710, ''B12'', 2281)]\<rparr>"

definition demo_env :: "string \<Rightarrow> env" where
  "demo_env gt =
     \<lparr>odc_stac_load =
        (\<lambda>it bs. if bs = [''B02'', ''B03'', ''B04'', ''B08''] then Inr (vis_cube gt)
                 else if bs = [''B05'', ''B06'', ''B07'', ''B11'', ''B12''] then Inr swir_cube
                 else Inl (LoadError ''no such asset'')),
      area_epsg5070 = (\<lambda>g. Inr 200),
      geo_to_h3shape = (\<lambda>g. Inr g),
      h3shape_to_cells = (\<lambda>p lvl. Inr [''8c9e688000001ff'', ''8c9e688000003ff'']),
      to_crs_4326 = (\<lambda>crs p. (fst p / 1000, snd p / 1000)),
      latlng_to_cell =
        (\<lambda>la lo lvl. if lvl = PyInt 12
                      then (if lo < 156.905 then ''8c9e688000001ff'' else ''8c9e688000003ff'')
                      else ''8b9e68800000fff''),
      binning_raises = (\<lambda>data lvl. None),
      to_parquet_raises = (\<lambda>path rows old. None),
      py_float = float_decimal\<rparr>"

text \<open>The same environment with a file system that refuses to overwrite: a write to a
  path that holds a file raises and leaves the file as it was.\<close>

definition locked_env :: "string \<Rightarrow> env" where
  "locked_env gt =
     (demo_env gt)\<lparr>to_parquet_raises :=
        (\<lambda>path rows old. case old of None \<Rightarrow> None
                                     | Some kept \<Rightarrow> Some (OSError ''file exists'', Some kept))\<rparr>"

definition footprint :: geometry where
  "footprint = [(157, -21.8), (158.1, -21.8), (158.1, -20.8), (157, -20.8), (157, -21.8)]"

definition tile :: "string \<Rightarrow> item" where
  "tile name =
     \<lparr>item_id = name, bbox = [157.06563865, -21.78317872, 158.1, -20.8],
      datetime = Some (''2023-12-01'', ''23:52:29''),
      geometry = footprint\<rparr>"

definition w0 :: world where
  "w0 = \<lparr>stdout = [], files = Map.empty\<rparr>"

definition gt10 :: string where "gt10 = ''600000.0 10.0 0.0 7600000.0 0.0 -10.0''"
definition gt20 :: string where "gt20 = ''600000.0 20.0 0.0 7600000.0 0.0 -20.0''"
definition gt_skew :: string where "gt_skew = ''600000.0 10.0 0.0 7600000.0 0.0 -30.0''"

definition cell_samples :: "pixel_sample list" where
  "cell_samples =
     [\<lparr>lon = 156.9001, lat = -21.7001, band = ''B02'', val = 2469\<rparr>,
      \<lparr>lon = 156.9002, lat = -21.7001, band = ''B02'', val = 2471\<rparr>,
      \<lparr>lon = 156.9001, lat = -21.7002, band = ''B03'', val = -1\<rparr>,
      \<lparr>lon = 156.9001, lat = -21.7002, band = ''B02'', val = 2467\<rparr>,
      \<lparr>lon = 156.9002, lat = -21.7002, band = ''B03'', val = 0\<rparr>,
      \<lparr>lon = 156.9002, lat = -21.7002, band = ''B02'', val = 2472\<rparr>]"

section \<open>Properties\<close>

subsection \<open>Unfolding rules for the examples\<close>

lemmas input_defs = demo_env_def locked_env_def vis_cube_def swir_cube_def tile_def w0_def float_decimal_def unsigned_decimal_def digit_def
lemmas run_defs = process_one_item_def process_item_groups_def item_setup_def process_band_group_def
  finish_band_group_def pixel_counts_def BAND_GROUPS_def
  assert_resolution_def measured_resolution_def getitem_def str_split_def isspace_def diagnostics_def truediv_def
  aggregate_def groupby_mean_def mean_def to_samples_def hex_key_def astype_int16_def trunc_def main_def

lemmas example_defs = gt10_def gt20_def gt_skew_def cell_samples_def

subsection \<open>Auxiliary facts\<close>

lemma group_values:
  "map snd (filter (\<lambda>r. fst r = k) (map (\<lambda>s. (f s, g s)) ss)) = map g (filter (\<lambda>s. f s = k) ss)"
  by (induction ss) auto

lemma mset_sort_remdups: "mset (sort (remdups ks)) = mset_set (set ks)"
  by (simp add: mset_set_set [symmetric])

lemma mean_cong_mset:
  assumes "mset xs = mset ys"
  shows "mean xs = mean ys"
proof -
  have "sum_list xs = sum_list ys"
    using assms by (metis sum_mset_sum_list)
  moreover have "length xs = length ys"
    using assms by (metis size_mset)
  ultimately show ?thesis by (simp add: mean_def)
qed

lemma aggregate_eq:
  "aggregate e lvl ss =
     map (\<lambda>k. (fst k, snd k, astype_int16 (mean (map val (filter (\<lambda>s. hex_key e lvl s = k) ss)))))
         (sort (remdups (map (hex_key e lvl) ss)))"
proof -
  have "map fst (map (\<lambda>s. (hex_key e lvl s, val s)) ss) = map (hex_key e lvl) ss"
    by (simp add: o_def)
  then show ?thesis
    unfolding aggregate_def groupby_mean_def
    by (simp add: group_values case_prod_beta o_def)
qed

lemma aggregate_row:
  assumes "(h, b, v) \<in> set (aggregate e lvl ss)"
  shows "v = astype_int16 (mean (map val (filter (\<lambda>s. hex_key e lvl s = (h, b)) ss)))"
  using assms unfolding aggregate_eq by auto

lemma sint_astype_int16:
  "sint (astype_int16 m) = (trunc m + 32768) mod 65536 - 32768"
  by (simp add: astype_int16_def int_word_sint)

lemma diagnostics_staged:
  "diagnostics area res num_cells num_tile_pixels =
     (case pixel_counts area res num_tile_pixels of
        Inl err \<Rightarrow> Inl err
      | Inr (num_pixels, valid_frac) \<Rightarrow>
          (case truediv num_pixels (real num_cells) of
             Inl err \<Rightarrow> Inl err
           | Inr ratio \<Rightarrow> Inr (ratio, valid_frac)))"
  by (simp add: diagnostics_def pixel_counts_def split: sum.splits)

lemma finish_band_group_ok:
  assumes "finish_band_group e it d ll a p g data w = (None, w')"
  shows "\<exists>cells ratio valid_frac.
           h3shape_to_cells e p (zoom (snd g)) = Inr cells \<and>
           diagnostics a (resolution (snd g)) (length cells) (size_x data * size_y data)
             = Inr (ratio, valid_frac) \<and>
           w' = w\<lparr>stdout := stdout w @
                     [\<lparr>line_item = item_id it, line_group = fst g, line_llcorner = ll,
                       line_date = d, line_res = resolution (snd g), line_ratio = ratio,
                       line_valid_frac = valid_frac\<rparr>],
                   files := (files w)(item_id it @ ''.parquet'' \<mapsto>
                              aggregate e (zoom (snd g)) (to_samples e data))\<rparr>"
proof -
  from assms obtain num_pixels valid_frac cells ratio
    where pc: "pixel_counts a (resolution (snd g)) (size_x data * size_y data) = Inr (num_pixels, valid_frac)"
      and cs: "h3shape_to_cells e p (zoom (snd g)) = Inr cells"
      and td: "truediv num_pixels (real (length cells)) = Inr ratio"
      and w': "w' = w\<lparr>stdout := stdout w @
                     [\<lparr>line_item = item_id it, line_group = fst g, line_llcorner = ll,
                       line_date = d, line_res = resolution (snd g), line_ratio = ratio,
                       line_valid_frac = valid_frac\<rparr>],
                   files := (files w)(item_id it @ ''.parquet'' \<mapsto>
                              aggregate e (zoom (snd g)) (to_samples e data))\<rparr>"
    unfolding finish_band_group_def
    by (auto simp: Let_def split: sum.splits prod.splits option.splits)
  from pc td
  have "diagnostics a (resolution (snd g)) (length cells) (size_x data * size_y data)
          = Inr (ratio, valid_frac)"
    by (simp add: diagnostics_staged)
  with cs w' show ?thesis by blast
qed

lemma process_band_group_ok:
  assumes "process_band_group e it d ll a p g w = (None, w')"
  shows "\<exists>data. odc_stac_load e it (bands (snd g)) = Inr data \<and>
                assert_resolution e (resolution (snd g)) data = Inr () \<and>
                finish_band_group e it d ll a p g data w = (None, w')"
  using assms unfolding process_band_group_def
  by (auto split: sum.splits)

lemma process_band_group_stdout:
  assumes "process_band_group e it d ll a p g w = (None, w')"
  shows "map (\<lambda>l. (line_item l, line_group l)) (stdout w') =
         map (\<lambda>l. (line_item l, line_group l)) (stdout w) @ [(item_id it, fst g)]"
proof -
  from process_band_group_ok [OF assms] obtain data
    where "finish_band_group e it d ll a p g data w = (None, w')" by blast
  from finish_band_group_ok [OF this] show ?thesis by auto
qed

lemma for_band_groups_stdout:
  assumes "for_band_groups e it d ll a p gs w = (None, w')"
  shows "map (\<lambda>l. (line_item l, line_group l)) (stdout w') =
         map (\<lambda>l. (line_item l, line_group l)) (stdout w) @ map (\<lambda>g. (item_id it, fst g)) gs"
  using assms
proof (induction gs arbitrary: w)
  case Nil
  then show ?case by simp
next
  case (Cons g gs)
  then obtain w1 where step: "process_band_group e it d ll a p g w = (None, w1)"
    and rest: "for_band_groups e it d ll a p gs w1 = (None, w')"
    by (auto split: prod.splits option.splits)
  show ?case
    using Cons.IH [OF rest] process_band_group_stdout [OF step] by simp
qed


subsection \<open>The claims\<close>




text \<open>Claim C2 (resolution-mismatch detection), as stated, fails in the error it names. A
  cube that measures 20 against a configured 10 is rejected, but with
  \<^verbatim>\<open>AssertionError("Resolution is donked up")\<close>, a fixed message that carries neither value,
  not with a \<^verbatim>\<open>ResolutionMismatchError\<close> of the two values.\<close>

theorem resolution_mismatch_counterexample:
  "measured_resolution (demo_env gt20) (vis_cube gt20) = Inr 20 \<and>
   assert_resolution (demo_env gt20) 10 (vis_cube gt20) = Inl (AssertionError ''Resolution is donked up'') \<and>
   assert_resolution (demo_env gt20) 10 (vis_cube gt20) \<noteq> Inl (ResolutionMismatchError 10 20)"
  by (simp add: input_defs example_defs assert_resolution_def measured_resolution_def getitem_def str_split_def isspace_def)

text \<open>Claim C2, amended. For every loaded cube whose measured resolution (the second token of
  its \<^verbatim>\<open>GeoTransform\<close> string, read as a float) differs from the configured one, the
  assertion fails with \<^verbatim>\<open>AssertionError("Resolution is donked up")\<close> and the unit ends with
  that error and an unchanged world: it does not reach binning, aggregation, the log line
  or the file.\<close>

theorem resolution_mismatch_asserts:
  assumes "odc_stac_load e it (bands (snd g)) = Inr data"
    and "measured_resolution e data = Inr m"
    and "m \<noteq> resolution (snd g)"
  shows "assert_resolution e (resolution (snd g)) data = Inl (AssertionError ''Resolution is donked up'') \<and>
         process_band_group e it d ll a p g w = (Some (AssertionError ''Resolution is donked up''), w)"
  using assms by (auto simp: assert_resolution_def process_band_group_def)

text \<open>Claim C2, amended, on the cube that declares 20 for the 10 m band group.\<close>

theorem resolution_mismatch_asserts_witness:
  "measured_resolution (demo_env gt20) (vis_cube gt20) = Inr 20 \<and> (20 :: real) \<noteq> 10 \<and>
   assert_resolution (demo_env gt20) 10 (vis_cube gt20) = Inl (AssertionError ''Resolution is donked up'') \<and>
   process_band_group (demo_env gt20) (tile ''T57KUS'') ''2023-12-01'' [] 200 footprint (BAND_GROUPS ! 0) w0 =
     (Some (AssertionError ''Resolution is donked up''), w0)"
  using resolution_mismatch_asserts [of "demo_env gt20" "tile ''T57KUS''" "BAND_GROUPS ! 0" "vis_cube gt20" 20
      "''2023-12-01''" "[]" 200 footprint w0]
  by (simp add: input_defs example_defs BAND_GROUPS_def measured_resolution_def getitem_def str_split_def isspace_def)

text \<open>Claim C3 (no silent wraparound), as stated, fails. One sample of value 40000 gives a
  group whose mean, 40000, is above 32767; the aggregation returns a row, and its value is
  \<open>-25536 = 40000 - 2^16\<close>: neither saturated nor an error.\<close>

theorem cast_wraps_counterexample:
  "mean [40000] = 40000 \<and>
   map (\<lambda>(h, b, v). (h, b, sint v))
     (aggregate (demo_env gt10) (PyInt 12) [\<lparr>lon = 156.91, lat = - 21.7, band = ''B04'', val = 40000\<rparr>])
     = [(''8c9e688000003ff'', ''B04'', - 25536)] \<and>
   (- 25536 :: int) = 40000 - 2 ^ 16"
  by (simp add: input_defs example_defs run_defs)

text \<open>Claim C3, amended. The cast is unchecked: for every output row, whose group mean
  truncates to an integer inside the 32-bit range, the stored value is that integer reduced
  modulo \<open>2^16\<close> into \<open>-32768 .. 32767\<close>. An out-of-range mean wraps around; nothing
  saturates and nothing is raised.\<close>

theorem cast_wraps:
  assumes "(h, b, v) \<in> set (aggregate e lvl ss)"
    and "m = mean (map val (filter (\<lambda>s. hex_key e lvl s = (h, b)) ss))"
    and "- (2 ^ 31) \<le> trunc m" and "trunc m < 2 ^ 31"
  shows "sint v = (trunc m + 32768) mod 65536 - 32768"
  using aggregate_row [OF assms(1)] assms(2) by (simp add: sint_astype_int16)

text \<open>Claim C3, amended, on the sample of value 40000.\<close>

theorem cast_wraps_witness:
  "(''8c9e688000003ff'', ''B04'', word_of_int 40000)
     \<in> set (aggregate (demo_env gt10) (PyInt 12) [\<lparr>lon = 156.91, lat = - 21.7, band = ''B04'', val = 40000\<rparr>]) \<and>
   trunc 40000 = 40000 \<and>
   sint (word_of_int 40000 :: 16 word) = - 25536"
proof -
  let ?E = "demo_env gt10"
  let ?ss = "[\<lparr>lon = 156.91, lat = - 21.7, band = ''B04'', val = 40000\<rparr>]"
  have row: "(''8c9e688000003ff'', ''B04'', word_of_int 40000) \<in> set (aggregate ?E (PyInt 12) ?ss)"
    by (simp add: input_defs example_defs run_defs)
  have m: "(40000 :: real) = mean (map val (filter (\<lambda>s. hex_key ?E (PyInt 12) s = (''8c9e688000003ff'', ''B04'')) ?ss))"
    by (simp add: input_defs example_defs run_defs)
  have t: "trunc 40000 = 40000"
    by (simp add: trunc_def)
  have "sint (word_of_int 40000 :: 16 word) = (trunc 40000 + 32768) mod 65536 - 32768"
    by (rule cast_wraps [OF row m]) (simp_all add: t)
  with row t show ?thesis by simp
qed

text \<open>Claim C4 (coverage diagnostics formulas). For positive area, resolution, number of
  cells and number of tile pixels, lines 89--95 raise nothing and compute
  \<open>ratio = (area / res^2) / num_cells\<close> and \<open>valid_frac = (area / res^2) / num_tile_pixels\<close>.
  \<open>diagnostics\<close> is a function of these four scalars only; it neither reads nor changes
  the world.\<close>

theorem diagnostics_formulas:
  assumes "0 < area" and "0 < res" and "0 < num_cells" and "0 < num_tile_pixels"
  shows "diagnostics area res num_cells num_tile_pixels =
           Inr (area / res ^ 2 / real num_cells, area / res ^ 2 / real num_tile_pixels)"
  using assms by (simp add: diagnostics_def truediv_def)

text \<open>Claim C4 on the example of the specification: an area of 120,000,000 square metres and
  a raster of 1200 by 1000 pixels at 10 m give a valid fraction of 1.\<close>

theorem diagnostics_formulas_witness:
  "(0::real) < 120000000 \<and> (0::real) < 10 \<and> (0::nat) < 250000 \<and> (0::nat) < 1200 * 1000 \<and>
   diagnostics 120000000 10 250000 (1200 * 1000) = Inr (24 / 5, 1)"
  using diagnostics_formulas [of 120000000 10 250000 "1200 * 1000"] by simp

text \<open>Claim C5 (aggregation algorithm). Every sample gets the key
  \<open>(latlng_to_cell(lat, lon, level), band)\<close>; the output has exactly one row for each key
  that occurs among the samples, no two rows share a key, and the value of the row is the
  arithmetic mean of the values of the samples with exactly that key, cast to
  \<^verbatim>\<open>int16\<close>.\<close>

theorem aggregate_groups:
  "distinct (map (\<lambda>(h, b, v). (h, b)) (aggregate e lvl ss)) \<and>
   mset (aggregate e lvl ss) =
     image_mset
       (\<lambda>(h, b). (h, b, astype_int16 (mean (map val
                      (filter (\<lambda>s. latlng_to_cell e (lat s) (lon s) lvl = h \<and> band s = b) ss)))))
       (mset_set ((\<lambda>s. (latlng_to_cell e (lat s) (lon s) lvl, band s)) ` set ss))"
proof -
  let ?F = "\<lambda>k. (fst k, snd k, astype_int16 (mean (map val (filter (\<lambda>s. hex_key e lvl s = k) ss))))"
  let ?ks = "sort (remdups (map (hex_key e lvl) ss))"
  have "map (\<lambda>(h, b, v). (h, b)) (aggregate e lvl ss) = ?ks"
    unfolding aggregate_eq by (simp add: o_def)
  then have d: "distinct (map (\<lambda>(h, b, v). (h, b)) (aggregate e lvl ss))"
    by simp
  have "mset (aggregate e lvl ss) = image_mset ?F (mset ?ks)"
    unfolding aggregate_eq by (simp only: mset_map)
  also have "mset ?ks = mset_set (hex_key e lvl ` set ss)"
    by (simp only: mset_sort_remdups set_map)
  finally have "mset (aggregate e lvl ss) = image_mset ?F (mset_set (hex_key e lvl ` set ss))" .
  moreover have "?F = (\<lambda>(h, b). (h, b, astype_int16 (mean (map val
                     (filter (\<lambda>s. latlng_to_cell e (lat s) (lon s) lvl = h \<and> band s = b) ss)))))"
    by (auto simp: fun_eq_iff hex_key_def)
  moreover have "hex_key e lvl = (\<lambda>s. (latlng_to_cell e (lat s) (lon s) lvl, band s))"
    by (simp add: fun_eq_iff hex_key_def)
  ultimately show ?thesis
    using d by simp
qed

text \<open>Claim C5 on six samples in one cell: four of band \<^verbatim>\<open>B02\<close> and two of band
  \<^verbatim>\<open>B03\<close> give two rows.\<close>

theorem aggregate_groups_witness:
  "aggregate (demo_env gt10) (PyInt 12) cell_samples =
     [(''8c9e688000001ff'', ''B02'', 2469), (''8c9e688000001ff'', ''B03'', 0)] \<and>
   distinct (map (\<lambda>(h, b, v). (h, b)) (aggregate (demo_env gt10) (PyInt 12) cell_samples)) \<and>
   mset (aggregate (demo_env gt10) (PyInt 12) cell_samples) =
     image_mset
       (\<lambda>(h, b). (h, b, astype_int16 (mean (map val
                      (filter (\<lambda>s. latlng_to_cell (demo_env gt10) (lat s) (lon s) (PyInt 12) = h \<and> band s = b)
                         cell_samples)))))
       (mset_set ((\<lambda>s. (latlng_to_cell (demo_env gt10) (lat s) (lon s) (PyInt 12), band s)) ` set cell_samples))"
proof -
  have agg: "aggregate (demo_env gt10) (PyInt 12) cell_samples =
               [(''8c9e688000001ff'', ''B02'', 2469), (''8c9e688000001ff'', ''B03'', 0)]"
    by (simp add: input_defs example_defs run_defs)
  note inst = aggregate_groups [of "demo_env gt10" "PyInt 12" cell_samples]
  show ?thesis
    by (intro conjI) (rule agg, rule inst [THEN conjunct1], rule inst [THEN conjunct2])
qed

text \<open>Claim C6 (aggregation is order-independent). Two sample sequences that are
  permutations of each other aggregate to the same multiset of rows.\<close>

theorem aggregate_permutation:
  assumes "mset ss = mset ss'"
  shows "mset (aggregate e lvl ss) = mset (aggregate e lvl ss')"
proof -
  have s: "set ss = set ss'"
    using assms by (rule mset_eq_setD)
  have m: "mean (map val (filter (\<lambda>s. hex_key e lvl s = k) ss)) =
           mean (map val (filter (\<lambda>s. hex_key e lvl s = k) ss'))" for k
    by (rule mean_cong_mset) (simp add: assms)
  have k: "sort (remdups (map (hex_key e lvl) ss)) = sort (remdups (map (hex_key e lvl) ss'))"
    by (simp add: sorted_list_of_set_sort_remdups [symmetric] s)
  have "aggregate e lvl ss = aggregate e lvl ss'"
    unfolding aggregate_eq by (simp add: k m)
  then show ?thesis by simp
qed

text \<open>Claim C6 on the six samples and their reversal.\<close>

theorem aggregate_permutation_witness:
  "mset cell_samples = mset (rev cell_samples) \<and>
   mset (aggregate (demo_env gt10) (PyInt 12) cell_samples) =
   mset (aggregate (demo_env gt10) (PyInt 12) (rev cell_samples))"
proof -
  have p: "mset cell_samples = mset (rev cell_samples)"
    by simp
  from p aggregate_permutation [OF p] show ?thesis
    by (rule conjI)
qed

text \<open>Claim C7 (distinct output paths per unit), as stated, fails. The two band groups of
  \<^verbatim>\<open>BAND_GROUPS\<close> have different names, yet the unit of either one writes the same path,
  \<^verbatim>\<open>T57KUS.parquet\<close>; after \<^verbatim>\<open>process_one_item\<close> there is one file, and it holds the
  rows of the second band group only.\<close>

theorem output_path_counterexample:
  "fst (process_band_group (demo_env gt10) (tile ''T57KUS'') ''2023-12-01'' [] 200 footprint (BAND_GROUPS ! 0) w0)
     = None \<and>
   dom (files (snd (process_band_group (demo_env gt10) (tile ''T57KUS'') ''2023-12-01'' [] 200 footprint
                      (BAND_GROUPS ! 0) w0)))
     = {''T57KUS.parquet''} \<and>
   fst (process_band_group (demo_env gt10) (tile ''T57KUS'') ''2023-12-01'' [] 200 footprint (BAND_GROUPS ! 1) w0)
     = None \<and>
   dom (files (snd (process_band_group (demo_env gt10) (tile ''T57KUS'') ''2023-12-01'' [] 200 footprint
                      (BAND_GROUPS ! 1) w0)))
     = {''T57KUS.parquet''} \<and>
   fst (BAND_GROUPS ! 0) \<noteq> fst (BAND_GROUPS ! 1) \<and>
   dom (files (snd (process_one_item (demo_env gt10) (tile ''T57KUS'') w0))) = {''T57KUS.parquet''} \<and>
   map (\<lambda>(h, b, v). b)
     (the (files (snd (process_one_item (demo_env gt10) (tile ''T57KUS'') w0)) ''T57KUS.parquet''))
     = [''B05'', ''B06'', ''B07'', ''B11'', ''B12'']"
  by (simp add: input_defs example_defs run_defs)

text \<open>Claim C7, amended. The output path of a unit is the tile id followed by
  \<^verbatim>\<open>.parquet\<close>, whatever the band group. Two units of one tile write the same path, and
  after the second the file holds the rows of the second unit only.\<close>

theorem units_share_output_path:
  assumes "odc_stac_load e it (bands (snd g1)) = Inr data1"
    and "odc_stac_load e it (bands (snd g2)) = Inr data2"
    and "process_band_group e it d ll a p g1 w = (None, w1)"
    and "process_band_group e it d ll a p g2 w1 = (None, w2)"
  shows "files w1 = (files w)(item_id it @ ''.parquet'' \<mapsto> aggregate e (zoom (snd g1)) (to_samples e data1)) \<and>
         files w2 = (files w)(item_id it @ ''.parquet'' \<mapsto> aggregate e (zoom (snd g2)) (to_samples e data2))"
proof -
  from process_band_group_ok [OF assms(3)] assms(1)
  have "finish_band_group e it d ll a p g1 data1 w = (None, w1)" by auto
  from finish_band_group_ok [OF this]
  have f1: "files w1 = (files w)(item_id it @ ''.parquet'' \<mapsto> aggregate e (zoom (snd g1)) (to_samples e data1))"
    by auto
  from process_band_group_ok [OF assms(4)] assms(2)
  have "finish_band_group e it d ll a p g2 data2 w1 = (None, w2)" by auto
  from finish_band_group_ok [OF this]
  have "files w2 = (files w1)(item_id it @ ''.parquet'' \<mapsto> aggregate e (zoom (snd g2)) (to_samples e data2))"
    by auto
  with f1 show ?thesis by simp
qed

text \<open>Claim C7, amended, on the two band groups of one tile.\<close>

theorem units_share_output_path_witness:
  "files (snd (process_item_groups (demo_env gt10) [BAND_GROUPS ! 0] (tile ''T57KUS'') w0)) =
     (files w0)(item_id (tile ''T57KUS'') @ ''.parquet'' \<mapsto>
        aggregate (demo_env gt10) (zoom (snd (BAND_GROUPS ! 0))) (to_samples (demo_env gt10) (vis_cube gt10))) \<and>
   files (snd (process_item_groups (demo_env gt10) BAND_GROUPS (tile ''T57KUS'') w0)) =
     (files w0)(item_id (tile ''T57KUS'') @ ''.parquet'' \<mapsto>
        aggregate (demo_env gt10) (zoom (snd (BAND_GROUPS ! 1))) (to_samples (demo_env gt10) swir_cube))"
proof -
  let ?E = "demo_env gt10" and ?T = "tile ''T57KUS''"
  let ?w1 = "snd (process_item_groups ?E [BAND_GROUPS ! 0] ?T w0)"
  let ?w2 = "snd (process_item_groups ?E BAND_GROUPS ?T w0)"
  have l1: "odc_stac_load ?E ?T (bands (snd (BAND_GROUPS ! 0))) = Inr (vis_cube gt10)"
    by (simp add: demo_env_def BAND_GROUPS_def)
  have l2: "odc_stac_load ?E ?T (bands (snd (BAND_GROUPS ! 1))) = Inr swir_cube"
    by (simp add: demo_env_def BAND_GROUPS_def)
  have u1: "process_band_group ?E ?T ''2023-12-01'' (take 2 (bbox ?T)) 200 footprint (BAND_GROUPS ! 0) w0
              = (None, ?w1)"
    by (simp add: input_defs example_defs run_defs)
  have u2: "process_band_group ?E ?T ''2023-12-01'' (take 2 (bbox ?T)) 200 footprint (BAND_GROUPS ! 1) ?w1
              = (None, ?w2)"
    by (simp add: input_defs example_defs run_defs)
  show ?thesis
    using units_share_output_path [OF l1 l2 u1 u2] .
qed

text \<open>Claim C8 (orchestrator exhaustiveness), as stated, fails. With a catalog result of two
  tiles, \<^verbatim>\<open>main\<close> runs the two units of the first tile and none of the second: the log
  and the files mention \<^verbatim>\<open>T57KUS\<close> only.\<close>

theorem orchestrator_counterexample:
  "fst (main (demo_env gt10) [tile ''T57KUS'', tile ''T57KUT''] w0) = None \<and>
   map (\<lambda>l. (line_item l, line_group l)) (stdout (snd (main (demo_env gt10) [tile ''T57KUS'', tile ''T57KUT''] w0)))
     = [(''T57KUS'', ''vis_nir''), (''T57KUS'', ''swir_rededge'')] \<and>
   dom (files (snd (main (demo_env gt10) [tile ''T57KUS'', tile ''T57KUT''] w0))) = {''T57KUS.parquet''}"
  by (simp add: input_defs example_defs run_defs)

text \<open>Claim C8, amended. \<^verbatim>\<open>main\<close> processes the first item of the catalog result and no
  other: on an empty result it raises \<^verbatim>\<open>IndexError\<close>; otherwise it is
  \<^verbatim>\<open>process_one_item\<close> on the first item, whatever follows it, and when that raises
  nothing it has printed exactly one line per band group of that item, in the order of
  \<^verbatim>\<open>BAND_GROUPS\<close>. No sequence of outcomes is returned.\<close>

theorem main_first_item_only:
  "main e [] w = (Some IndexError, w) \<and>
   main e (it # rest) w = process_one_item e it w \<and>
   (fst (main e (it # rest) w) = None \<longrightarrow>
      map (\<lambda>l. (line_item l, line_group l)) (stdout (snd (main e (it # rest) w))) =
      map (\<lambda>l. (line_item l, line_group l)) (stdout w) @ map (\<lambda>g. (item_id it, fst g)) BAND_GROUPS)"
proof -
  have m: "main e (it # rest) w = process_one_item e it w"
    by (simp add: main_def getitem_def)
  have "map (\<lambda>l. (line_item l, line_group l)) (stdout (snd (process_one_item e it w))) =
        map (\<lambda>l. (line_item l, line_group l)) (stdout w) @ map (\<lambda>g. (item_id it, fst g)) BAND_GROUPS"
    if ok: "fst (process_one_item e it w) = None"
  proof (cases "item_setup e it")
    case (Inl err)
    with ok show ?thesis
      by (simp add: process_one_item_def process_item_groups_def)
  next
    case (Inr t)
    obtain d ll a p where t: "t = (d, ll, a, p)"
      by (cases t) auto
    let ?r = "for_band_groups e it d ll a p BAND_GROUPS w"
    have r: "process_one_item e it w = ?r"
      using Inr t by (simp add: process_one_item_def process_item_groups_def)
    with ok have "?r = (None, snd ?r)"
      by (simp add: prod_eq_iff)
    from for_band_groups_stdout [OF this] show ?thesis
      by (simp add: r)
  qed
  with m show ?thesis
    by (simp add: main_def getitem_def)
qed

text \<open>Claim C8, amended, on a catalog result of two tiles.\<close>

theorem main_first_item_only_witness:
  "main (demo_env gt10) [] w0 = (Some IndexError, w0) \<and>
   main (demo_env gt10) [tile ''T57KUS'', tile ''T57KUT''] w0 = process_one_item (demo_env gt10) (tile ''T57KUS'') w0 \<and>
   fst (main (demo_env gt10) [tile ''T57KUS'', tile ''T57KUT''] w0) = None \<and>
   map (\<lambda>l. (line_item l, line_group l)) (stdout (snd (main (demo_env gt10) [tile ''T57KUS'', tile ''T57KUT''] w0)))
     = [(''T57KUS'', ''vis_nir''), (''T57KUS'', ''swir_rededge'')]"
proof -
  let ?m = "main (demo_env gt10) [tile ''T57KUS'', tile ''T57KUT''] w0"
  have ok: "fst ?m = None"
    by (simp add: input_defs example_defs run_defs)
  have names: "map (\<lambda>l. (line_item l, line_group l)) (stdout w0) @
               map (\<lambda>g. (item_id (tile ''T57KUS''), fst g)) BAND_GROUPS
               = [(''T57KUS'', ''vis_nir''), (''T57KUS'', ''swir_rededge'')]"
    by (simp add: tile_def w0_def BAND_GROUPS_def)
  note inst = main_first_item_only [of "demo_env gt10" w0 "tile ''T57KUS''" "[tile ''T57KUT'']"]
  from inst have a: "main (demo_env gt10) [] w0 = (Some IndexError, w0)"
    by (rule conjunct1)
  from inst have b: "?m = process_one_item (demo_env gt10) (tile ''T57KUS'') w0"
    by (rule conjunct2 [THEN conjunct1])
  from inst ok have c: "map (\<lambda>l. (line_item l, line_group l)) (stdout (snd ?m))
       = [(''T57KUS'', ''vis_nir''), (''T57KUS'', ''swir_rededge'')]"
    unfolding names by (rule conjunct2 [THEN conjunct2, THEN mp])
  from a b ok c show ?thesis
    by (intro conjI)
qed

text \<open>Claim C9 (the assertion reads the x pixel size only). For a loaded cube whose
  \<^verbatim>\<open>GeoTransform\<close> string has six tokens, the assertion passes for a resolution exactly
  when the second token, the x pixel size, reads as that resolution. So when the second
  token reads as the configured resolution and the sixth, the y pixel size, reads as a
  different number, the assertion passes and the unit goes on with lines 89--133 on that
  cube; when these raise nothing, the line of the band group is printed and the file
  holds the aggregation of that cube.\<close>

theorem resolution_checks_x_only:
  assumes "odc_stac_load e it (bands (snd g)) = Inr data"
    and "str_split (GeoTransform data) = [t0, t1, t2, t3, t4, t5]"
    and "py_float e t1 = Some (resolution (snd g))"
    and "py_float e t5 = Some ry" and "ry \<noteq> resolution (snd g)"
  shows "(\<forall>res. (assert_resolution e res data = Inr ()) = (py_float e t1 = Some res)) \<and>
         assert_resolution e (resolution (snd g)) data = Inr () \<and>
         process_band_group e it d ll a p g w = finish_band_group e it d ll a p g data w \<and>
         (fst (process_band_group e it d ll a p g w) = None \<longrightarrow>
            map line_group (stdout (snd (process_band_group e it d ll a p g w)))
              = map line_group (stdout w) @ [fst g] \<and>
            files (snd (process_band_group e it d ll a p g w))
              = (files w)(item_id it @ ''.parquet'' \<mapsto> aggregate e (zoom (snd g)) (to_samples e data)))"
proof -
  have m: "measured_resolution e data = (case py_float e t1 of None \<Rightarrow> Inl ValueError | Some r \<Rightarrow> Inr r)"
    using assms(2) by (simp add: measured_resolution_def getitem_def)
  have x_decides: "(assert_resolution e res data = Inr ()) = (py_float e t1 = Some res)" for res
    unfolding assert_resolution_def m by (auto split: option.splits)
  then have passes: "assert_resolution e (resolution (snd g)) data = Inr ()"
    using assms(3) by simp
  have goes_on: "process_band_group e it d ll a p g w = finish_band_group e it d ll a p g data w"
    using assms(1) passes by (simp add: process_band_group_def)
  have completes:
    "map line_group (stdout (snd (process_band_group e it d ll a p g w))) = map line_group (stdout w) @ [fst g] \<and>
     files (snd (process_band_group e it d ll a p g w))
       = (files w)(item_id it @ ''.parquet'' \<mapsto> aggregate e (zoom (snd g)) (to_samples e data))"
    if ok: "fst (process_band_group e it d ll a p g w) = None"
  proof -
    from ok goes_on
    have "finish_band_group e it d ll a p g data w = (None, snd (process_band_group e it d ll a p g w))"
      by (simp add: prod_eq_iff)
    from finish_band_group_ok [OF this] show ?thesis
      by auto
  qed
  from x_decides passes goes_on completes show ?thesis
    by blast
qed

text \<open>Claim C9 on a cube of pixel size 10 in x and -30 in y, for the 10 m band group: the
  assertion passes for 10 and not for 30, and the unit prints its line and writes its
  file.\<close>

theorem resolution_checks_x_only_witness:
  "py_float (demo_env gt_skew) ''10.0'' = Some 10 \<and>
   py_float (demo_env gt_skew) ''-30.0'' = Some (- 30) \<and> (- 30 :: real) \<noteq> 10 \<and>
   assert_resolution (demo_env gt_skew) 10 (vis_cube gt_skew) = Inr () \<and>
   assert_resolution (demo_env gt_skew) 30 (vis_cube gt_skew) \<noteq> Inr () \<and>
   fst (process_band_group (demo_env gt_skew) (tile ''T57KUS'') ''2023-12-01'' [] 200 footprint
          (BAND_GROUPS ! 0) w0) = None \<and>
   map line_group (stdout (snd (process_band_group (demo_env gt_skew) (tile ''T57KUS'') ''2023-12-01'' [] 200
          footprint (BAND_GROUPS ! 0) w0))) = [''vis_nir''] \<and>
   files (snd (process_band_group (demo_env gt_skew) (tile ''T57KUS'') ''2023-12-01'' [] 200 footprint
          (BAND_GROUPS ! 0) w0))
     = [''T57KUS.parquet'' \<mapsto> aggregate (demo_env gt_skew) (PyInt 12) (to_samples (demo_env gt_skew) (vis_cube gt_skew))]"
proof -
  let ?E = "demo_env gt_skew" and ?T = "tile ''T57KUS''" and ?g = "BAND_GROUPS ! 0"
  let ?r = "process_band_group ?E ?T ''2023-12-01'' [] 200 footprint ?g w0"
  have ld: "odc_stac_load ?E ?T (bands (snd ?g)) = Inr (vis_cube gt_skew)"
    by (simp add: demo_env_def BAND_GROUPS_def)
  have sp: "str_split (GeoTransform (vis_cube gt_skew))
              = [''600000.0'', ''10.0'', ''0.0'', ''7600000.0'', ''0.0'', ''-30.0'']"
    by (simp add: vis_cube_def gt_skew_def str_split_def isspace_def)
  have x: "py_float ?E ''10.0'' = Some (resolution (snd ?g))"
    by (simp add: input_defs BAND_GROUPS_def)
  have y: "py_float ?E ''-30.0'' = Some (- 30)"
    by (simp add: input_defs)
  have ne: "(- 30 :: real) \<noteq> resolution (snd ?g)"
    by (simp add: BAND_GROUPS_def)
  have res: "resolution (snd ?g) = 10" and lvl: "zoom (snd ?g) = PyInt 12" and nm: "fst ?g = ''vis_nir''"
    by (simp_all add: BAND_GROUPS_def)
  have ok: "fst ?r = None"
    by (simp add: input_defs example_defs run_defs)
  note inst = resolution_checks_x_only [OF ld sp x y ne, of "''2023-12-01''" "[]" 200 footprint w0]
  have x10: "py_float ?E ''10.0'' = Some 10"
    using x by (simp add: res)
  from inst have decides:
    "\<forall>r. (assert_resolution ?E r (vis_cube gt_skew) = Inr ()) = (py_float ?E ''10.0'' = Some r)"
    by (rule conjunct1)
  have a: "assert_resolution ?E 10 (vis_cube gt_skew) = Inr ()"
    using decides [rule_format, of 10] x10 by simp
  have b: "assert_resolution ?E 30 (vis_cube gt_skew) \<noteq> Inr ()"
    using decides [rule_format, of 30] x10 by simp
  note post = inst [THEN conjunct2, THEN conjunct2, THEN conjunct2, THEN mp, OF ok]
  have c: "map line_group (stdout (snd ?r)) = [''vis_nir'']"
    using post [THEN conjunct1] by (simp add: nm w0_def)
  have d: "files (snd ?r)
     = [''T57KUS.parquet'' \<mapsto> aggregate ?E (PyInt 12) (to_samples ?E (vis_cube gt_skew))]"
    using post [THEN conjunct2] by (simp add: lvl w0_def tile_def)
  have "(- 30 :: real) \<noteq> 10" by simp
  with x10 y a b ok c d show ?thesis
    by (intro conjI)
qed

text \<open>Claim C10 (the cast truncates toward zero). For every output row whose group mean
  \<open>m\<close> lies strictly between -32769 and 32768, the stored value is \<open>m\<close> with its fraction
  dropped toward zero: \<open>\<lfloor>m\<rfloor>\<close> for \<open>m \<ge> 0\<close> and \<open>-\<lfloor>-m\<rfloor>\<close> for \<open>m < 0\<close>. No
  rounding to nearest takes place.\<close>

theorem cast_truncates_toward_zero:
  assumes "(h, b, v) \<in> set (aggregate e lvl ss)"
    and "m = mean (map val (filter (\<lambda>s. hex_key e lvl s = (h, b)) ss))"
    and "- 32769 < m" and "m < 32768"
  shows "sint v = (if 0 \<le> m then \<lfloor>m\<rfloor> else - \<lfloor>- m\<rfloor>)"
proof -
  have lo: "- 32768 \<le> trunc m"
    using assms(3) unfolding trunc_def by (auto simp: le_floor_iff; linarith)
  have hi: "trunc m < 32768"
    using assms(4) unfolding trunc_def by (auto simp: floor_less_iff; linarith)
  have "sint v = (trunc m + 32768) mod 65536 - 32768"
    using aggregate_row [OF assms(1)] assms(2) by (simp add: sint_astype_int16)
  also have "\<dots> = trunc m"
    using lo hi by simp
  finally show ?thesis
    by (simp add: trunc_def)
qed

text \<open>Claim C10 on two groups: a mean of 2469.75 is stored as 2469 and a mean of -0.5 as
  0.\<close>

theorem cast_truncates_toward_zero_witness:
  "aggregate (demo_env gt10) (PyInt 12) cell_samples =
     [(''8c9e688000001ff'', ''B02'', 2469), (''8c9e688000001ff'', ''B03'', 0)] \<and>
   mean [2469, 2471, 2467, 2472] = 9879 / 4 \<and> sint (2469 :: 16 word) = 2469 \<and>
   mean [- 1, 0] = - 1 / 2 \<and> sint (0 :: 16 word) = 0"
proof -
  let ?E = "demo_env gt10"
  have agg: "aggregate ?E (PyInt 12) cell_samples =
               [(''8c9e688000001ff'', ''B02'', 2469), (''8c9e688000001ff'', ''B03'', 0)]"
    by (simp add: input_defs example_defs run_defs)
  have r1: "(''8c9e688000001ff'', ''B02'', 2469) \<in> set (aggregate ?E (PyInt 12) cell_samples)"
    and r2: "(''8c9e688000001ff'', ''B03'', 0) \<in> set (aggregate ?E (PyInt 12) cell_samples)"
    by (simp_all add: agg)
  have m1: "(9879 / 4 :: real) =
      mean (map val (filter (\<lambda>s. hex_key ?E (PyInt 12) s = (''8c9e688000001ff'', ''B02'')) cell_samples))"
    by (simp add: input_defs example_defs hex_key_def mean_def)
  have m2: "(- 1 / 2 :: real) =
      mean (map val (filter (\<lambda>s. hex_key ?E (PyInt 12) s = (''8c9e688000001ff'', ''B03'')) cell_samples))"
    by (simp add: input_defs example_defs hex_key_def mean_def)
  have s1: "sint (2469 :: 16 word) =
      (if (0::real) \<le> 9879 / 4 then \<lfloor>9879 / 4 :: real\<rfloor> else - \<lfloor>- (9879 / 4 :: real)\<rfloor>)"
    by (rule cast_truncates_toward_zero [OF r1 m1]) simp_all
  have s2: "sint (0 :: 16 word) =
      (if (0::real) \<le> - 1 / 2 then \<lfloor>- 1 / 2 :: real\<rfloor> else - \<lfloor>- (- 1 / 2 :: real)\<rfloor>)"
    by (rule cast_truncates_toward_zero [OF r2 m2]) simp_all
  from agg s1 s2 show ?thesis
    by (simp add: mean_def)
qed

end
